theory Spec2Isabelle
  imports Main
begin

section \<open>Documents (src/models) and resolver arguments\<close>

text \<open>
  The three Mongoose schemas. An \<open>ObjectId\<close> is modelled by a natural number. No path
  of a schema is \<open>required\<close>, so every path of a stored document may hold no value
  (\<open>None\<close>: the path is null or was never set). The enumerated paths are datatypes,
  as the GraphQL enums of \<open>typeDefs\<close> admit no other value.
\<close>

type_synonym oid = nat

datatype StatusEnum = ACTIVE | INACTIVE

datatype RoleEnum = ADMIN | CUSTOMER

datatype OrderStatusEnum = PENDING | COMPLETED | CANCELLED

record product =
  p_id :: oid
  p_name :: "string option"
  p_price :: "int option"
  p_category :: "string option"
  p_status :: "StatusEnum option"

record user =
  u_id :: oid
  u_username :: "string option"
  u_email :: "string option"
  u_role :: "RoleEnum option"

record order =
  o_id :: oid
  o_products :: "oid list option"
  o_user :: "oid option"
  o_total :: "int option"
  o_status :: "OrderStatusEnum option"

text \<open>
  A resolver destructures its arguments (\<open>{ id, name, price, category, status }\<close>):
  an argument the request leaves out is \<open>undefined\<close>, one it passes as \<open>null\<close> is
  \<open>null\<close>, any other carries a value.
\<close>

datatype 'a arg = Undefined | Null | Val 'a

text \<open>\<open>if (onlyActive)\<close>: only the value \<open>true\<close> is truthy.\<close>

fun truthy :: "bool arg \<Rightarrow> bool" where
  "truthy (Val b) = b"
| "truthy Undefined = False"
| "truthy Null = False"

text \<open>The value \<open>Model.create\<close> stores for a path of the new document.\<close>

fun stored :: "'a arg \<Rightarrow> 'a option" where
  "stored (Val v) = Some v"
| "stored Undefined = None"
| "stored Null = None"

text \<open>
  One path of the update document of \<open>findByIdAndUpdate\<close>: Mongoose strips a key
  whose value is \<open>undefined\<close> from the update, sets a path to null for \<open>null\<close>, and
  sets the value otherwise.
\<close>

fun assign :: "'a arg \<Rightarrow> 'a option \<Rightarrow> 'a option" where
  "assign Undefined old = old"
| "assign Null old = None"
| "assign (Val v) old = Some v"

section \<open>The document store behind the Mongoose models\<close>

text \<open>
  The three collections in their natural order, the next identity the driver hands
  out, a pending failure of the driver (\<open>fault\<close>: when set, every call of a model
  rejects with that message) and the log of the calls made on the models, which is
  what a count of underlying lookups reads.
\<close>

datatype model = ProductModel | UserModel | OrderModel

datatype operation = Find | FindOne | FindById | Create | FindByIdAndUpdate | FindByIdAndDelete

record store =
  products :: "product list"
  users :: "user list"
  orders :: "order list"
  next_id :: oid
  fault :: "string option"
  calls :: "(model \<times> operation) list"

text \<open>One awaited call of a model: logged, then rejected or run.\<close>

definition exec :: "model \<Rightarrow> operation \<Rightarrow> (store \<Rightarrow> 'a \<times> store) \<Rightarrow> store \<Rightarrow> (string + 'a) \<times> store" where
  "exec m f run s =
     (let s1 = s\<lparr>calls := calls s @ [(m, f)]\<rparr> in
      case fault s of
        Some msg \<Rightarrow> (Inl msg, s1)
      | None \<Rightarrow> (case run s1 of (a, s2) \<Rightarrow> (Inr a, s2)))"

text \<open>\<open>findOneAndUpdate\<close> and \<open>findOneAndDelete\<close> act on the first match only.\<close>

fun update_first :: "('d \<Rightarrow> bool) \<Rightarrow> ('d \<Rightarrow> 'd) \<Rightarrow> 'd list \<Rightarrow> 'd list" where
  "update_first c f [] = []"
| "update_first c f (d # ds) = (if c d then f d # ds else d # update_first c f ds)"

fun delete_first :: "('d \<Rightarrow> bool) \<Rightarrow> 'd list \<Rightarrow> 'd list" where
  "delete_first c [] = []"
| "delete_first c (d # ds) = (if c d then ds else d # delete_first c ds)"

subsection \<open>Product\<close>

definition Product_find :: "(product \<Rightarrow> bool) \<Rightarrow> store \<Rightarrow> (string + product list) \<times> store" where
  "Product_find cond = exec ProductModel Find (\<lambda>s. (filter cond (products s), s))"

definition Product_findById :: "oid \<Rightarrow> store \<Rightarrow> (string + product option) \<times> store" where
  "Product_findById i = exec ProductModel FindById (\<lambda>s. (find (\<lambda>p. p_id p = i) (products s), s))"

definition Product_create ::
  "string arg \<Rightarrow> int arg \<Rightarrow> string arg \<Rightarrow> StatusEnum arg \<Rightarrow> store \<Rightarrow> (string + product) \<times> store" where
  "Product_create name price category status = exec ProductModel Create (\<lambda>s.
     (let p = \<lparr>p_id = next_id s, p_name = stored name, p_price = stored price,
               p_category = stored category, p_status = stored status\<rparr>
      in (p, s\<lparr>products := products s @ [p], next_id := Suc (next_id s)\<rparr>)))"

definition Product_findByIdAndUpdate ::
  "oid \<Rightarrow> string arg \<Rightarrow> int arg \<Rightarrow> string arg \<Rightarrow> StatusEnum arg \<Rightarrow> store
     \<Rightarrow> (string + product option) \<times> store" where
  "Product_findByIdAndUpdate i name price category status = exec ProductModel FindByIdAndUpdate (\<lambda>s.
     (case find (\<lambda>p. p_id p = i) (products s) of
        None \<Rightarrow> (None, s)
      | Some p \<Rightarrow>
          (let p' = p\<lparr>p_name := assign name (p_name p), p_price := assign price (p_price p),
                      p_category := assign category (p_category p),
                      p_status := assign status (p_status p)\<rparr>
           in (Some p', s\<lparr>products := update_first (\<lambda>q. p_id q = i) (\<lambda>_. p') (products s)\<rparr>))))"

definition Product_findByIdAndDelete :: "oid \<Rightarrow> store \<Rightarrow> (string + product option) \<times> store" where
  "Product_findByIdAndDelete i = exec ProductModel FindByIdAndDelete (\<lambda>s.
     (find (\<lambda>p. p_id p = i) (products s),
      s\<lparr>products := delete_first (\<lambda>p. p_id p = i) (products s)\<rparr>))"

subsection \<open>User\<close>

definition User_find :: "(user \<Rightarrow> bool) \<Rightarrow> store \<Rightarrow> (string + user list) \<times> store" where
  "User_find cond = exec UserModel Find (\<lambda>s. (filter cond (users s), s))"

definition User_findOne :: "(user \<Rightarrow> bool) \<Rightarrow> store \<Rightarrow> (string + user option) \<times> store" where
  "User_findOne cond = exec UserModel FindOne (\<lambda>s. (find cond (users s), s))"

definition User_findById :: "oid \<Rightarrow> store \<Rightarrow> (string + user option) \<times> store" where
  "User_findById i = exec UserModel FindById (\<lambda>s. (find (\<lambda>u. u_id u = i) (users s), s))"

definition User_create ::
  "string arg \<Rightarrow> string arg \<Rightarrow> RoleEnum arg \<Rightarrow> store \<Rightarrow> (string + user) \<times> store" where
  "User_create username email role = exec UserModel Create (\<lambda>s.
     (let u = \<lparr>u_id = next_id s, u_username = stored username, u_email = stored email,
               u_role = stored role\<rparr>
      in (u, s\<lparr>users := users s @ [u], next_id := Suc (next_id s)\<rparr>)))"

definition User_findByIdAndUpdate ::
  "oid \<Rightarrow> string arg \<Rightarrow> string arg \<Rightarrow> RoleEnum arg \<Rightarrow> store \<Rightarrow> (string + user option) \<times> store" where
  "User_findByIdAndUpdate i username email role = exec UserModel FindByIdAndUpdate (\<lambda>s.
     (case find (\<lambda>u. u_id u = i) (users s) of
        None \<Rightarrow> (None, s)
      | Some u \<Rightarrow>
          (let u' = u\<lparr>u_username := assign username (u_username u),
                      u_email := assign email (u_email u), u_role := assign role (u_role u)\<rparr>
           in (Some u', s\<lparr>users := update_first (\<lambda>q. u_id q = i) (\<lambda>_. u') (users s)\<rparr>))))"

definition User_findByIdAndDelete :: "oid \<Rightarrow> store \<Rightarrow> (string + user option) \<times> store" where
  "User_findByIdAndDelete i = exec UserModel FindByIdAndDelete (\<lambda>s.
     (find (\<lambda>u. u_id u = i) (users s),
      s\<lparr>users := delete_first (\<lambda>u. u_id u = i) (users s)\<rparr>))"

subsection \<open>Order\<close>

definition Order_find :: "(order \<Rightarrow> bool) \<Rightarrow> store \<Rightarrow> (string + order list) \<times> store" where
  "Order_find cond = exec OrderModel Find (\<lambda>s. (filter cond (orders s), s))"

definition Order_findById :: "oid \<Rightarrow> store \<Rightarrow> (string + order option) \<times> store" where
  "Order_findById i = exec OrderModel FindById (\<lambda>s. (find (\<lambda>r. o_id r = i) (orders s), s))"

definition Order_create ::
  "oid list arg \<Rightarrow> oid arg \<Rightarrow> int arg \<Rightarrow> OrderStatusEnum arg \<Rightarrow> store \<Rightarrow> (string + order) \<times> store" where
  "Order_create prods usr tot status = exec OrderModel Create (\<lambda>s.
     (let r = \<lparr>o_id = next_id s, o_products = stored prods, o_user = stored usr,
               o_total = stored tot, o_status = stored status\<rparr>
      in (r, s\<lparr>orders := orders s @ [r], next_id := Suc (next_id s)\<rparr>)))"

definition Order_findByIdAndUpdate ::
  "oid \<Rightarrow> oid list arg \<Rightarrow> oid arg \<Rightarrow> int arg \<Rightarrow> OrderStatusEnum arg \<Rightarrow> store
     \<Rightarrow> (string + order option) \<times> store" where
  "Order_findByIdAndUpdate i prods usr tot status = exec OrderModel FindByIdAndUpdate (\<lambda>s.
     (case find (\<lambda>r. o_id r = i) (orders s) of
        None \<Rightarrow> (None, s)
      | Some r \<Rightarrow>
          (let r' = r\<lparr>o_products := assign prods (o_products r), o_user := assign usr (o_user r),
                      o_total := assign tot (o_total r), o_status := assign status (o_status r)\<rparr>
           in (Some r', s\<lparr>orders := update_first (\<lambda>q. o_id q = i) (\<lambda>_. r') (orders s)\<rparr>))))"

definition Order_findByIdAndDelete :: "oid \<Rightarrow> store \<Rightarrow> (string + order option) \<times> store" where
  "Order_findByIdAndDelete i = exec OrderModel FindByIdAndDelete (\<lambda>s.
     (find (\<lambda>r. o_id r = i) (orders s),
      s\<lparr>orders := delete_first (\<lambda>r. o_id r = i) (orders s)\<rparr>))"

section \<open>Query resolvers\<close>

text \<open>
  \<open>try { return await call } catch (error) { throw new Error(prefix + error.message) }\<close>:
  a rejection of the awaited call is rethrown with the resolver's prefix.
\<close>

definition rethrow :: "string \<Rightarrow> (string + 'a) \<times> store \<Rightarrow> (string + 'a) \<times> store" where
  "rethrow prefix r = (case r of (Inl msg, s) \<Rightarrow> (Inl (prefix @ msg), s) | (Inr a, s) \<Rightarrow> (Inr a, s))"

definition Query_product :: "oid \<Rightarrow> store \<Rightarrow> (string + product option) \<times> store" where
  "Query_product i s = rethrow ''Failed to fetch product: '' (Product_findById i s)"

definition Query_products :: "bool arg \<Rightarrow> store \<Rightarrow> (string + product list) \<times> store" where
  "Query_products onlyActive s = rethrow ''Failed to fetch products: ''
     (if truthy onlyActive then Product_find (\<lambda>p. p_status p = Some ACTIVE) s
      else Product_find (\<lambda>p. True) s)"

definition Query_user :: "oid \<Rightarrow> store \<Rightarrow> (string + user option) \<times> store" where
  "Query_user i s = rethrow ''Failed to fetch user: '' (User_findById i s)"

definition Query_users :: "store \<Rightarrow> (string + user list) \<times> store" where
  "Query_users s = rethrow ''Failed to fetch users: '' (User_find (\<lambda>u. True) s)"

definition Query_order :: "oid \<Rightarrow> store \<Rightarrow> (string + order option) \<times> store" where
  "Query_order i s = rethrow ''Failed to fetch order: '' (Order_findById i s)"

text \<open>
  The schema declares \<open>orders(userId: ID)\<close>; the resolver is \<open>async () => ...\<close> and
  never reads its arguments.
\<close>

definition Query_orders :: "oid arg \<Rightarrow> store \<Rightarrow> (string + order list) \<times> store" where
  "Query_orders userId s = rethrow ''Failed to fetch orders: '' (Order_find (\<lambda>r. True) s)"

section \<open>Field resolvers of the Order type\<close>

text \<open>
  \<open>{ _id: { $in: order.products } }\<close>: the stored products whose identity occurs in
  the reference list; a list that is null matches nothing. The resolver returns the
  query unawaited, so a rejection leaves it as it is and passes the \<open>catch\<close> by.
\<close>

definition references :: "order \<Rightarrow> oid list" where
  "references order = (case o_products order of None \<Rightarrow> [] | Some refs \<Rightarrow> refs)"

definition Order_products :: "order \<Rightarrow> store \<Rightarrow> (string + product list) \<times> store" where
  "Order_products order s = Product_find (\<lambda>p. p_id p \<in> set (references order)) s"

definition Order_user :: "order \<Rightarrow> store \<Rightarrow> (string + user option) \<times> store" where
  "Order_user order s = rethrow ''Failed to fetch user for order: ''
     (User_findOne (\<lambda>u. Some (u_id u) = o_user order) s)"

text \<open>
  What the GraphQL executor does with a selection \<open>{ user {...} products {...} }\<close> on
  orders: it calls the two field resolvers once for every order object it completes,
  and a field whose resolver throws is an error of that field alone.
\<close>

record resolved =
  r_order :: order
  r_user :: "string + user option"
  r_products :: "string + product list"

definition resolve_order :: "order \<Rightarrow> store \<Rightarrow> resolved \<times> store" where
  "resolve_order order s =
     (case Order_user order s of (u, s1) \<Rightarrow>
      case Order_products order s1 of (ps, s2) \<Rightarrow>
        (\<lparr>r_order = order, r_user = u, r_products = ps\<rparr>, s2))"

fun resolve_orders :: "order list \<Rightarrow> store \<Rightarrow> resolved list \<times> store" where
  "resolve_orders [] s = ([], s)"
| "resolve_orders (order # rest) s =
     (case resolve_order order s of (r, s1) \<Rightarrow>
      case resolve_orders rest s1 of (rs, s2) \<Rightarrow> (r # rs, s2))"

text \<open>The operations \<open>getOrder\<close> and \<open>listOrders\<close>: the query, then its selection.\<close>

definition getOrder :: "oid \<Rightarrow> store \<Rightarrow> (string + resolved option) \<times> store" where
  "getOrder i s =
     (case Query_order i s of
        (Inl msg, s1) \<Rightarrow> (Inl msg, s1)
      | (Inr None, s1) \<Rightarrow> (Inr None, s1)
      | (Inr (Some order), s1) \<Rightarrow>
          (case resolve_order order s1 of (r, s2) \<Rightarrow> (Inr (Some r), s2)))"

definition listOrders :: "oid arg \<Rightarrow> store \<Rightarrow> (string + resolved list) \<times> store" where
  "listOrders userId s =
     (case Query_orders userId s of
        (Inl msg, s1) \<Rightarrow> (Inl msg, s1)
      | (Inr found, s1) \<Rightarrow>
          (case resolve_orders found s1 of (rs, s2) \<Rightarrow> (Inr rs, s2)))"

text \<open>The calls a pass made on one model, read off the log.\<close>

definition lookups :: "model \<Rightarrow> store \<Rightarrow> nat" where
  "lookups m s = length (filter (\<lambda>c. fst c = m) (calls s))"

section \<open>Mutation resolvers\<close>

text \<open>
  The events a \<open>PubSub\<close> would receive. The module never declares \<open>pubsub\<close> (the
  \<open>require\<close> and the \<open>new PubSub()\<close> are commented out), so the binding of that
  identifier is part of the world a resolver runs in: \<open>None\<close> when it is not
  declared, as in the module as it stands, and the events published so far once it is.
  Evaluating \<open>pubsub.publish(...)\<close> with no declaration throws a ReferenceError.
\<close>

datatype payload =
    productAdded product | productUpdated "product option" | productDeleted oid
  | userAdded user | userUpdated "user option" | userDeleted oid
  | orderAdded order | orderUpdated "order option" | orderDeleted oid

record world =
  pubsub :: "(string \<times> payload) list option"
  db :: store

fun publish :: "string \<Rightarrow> payload \<Rightarrow> (string \<times> payload) list option
                  \<Rightarrow> string + (string \<times> payload) list option" where
  "publish topic e None = Inl ''pubsub is not defined''"
| "publish topic e (Some evs) = Inr (Some (evs @ [(topic, e)]))"

text \<open>
  The body every mutation resolver shares:
  \<open>try { const x = await write; pubsub.publish(topic, event x); return ret x }
    catch (error) { throw new Error(prefix + error.message) }\<close>.
  The \<open>catch\<close> covers the write and the publish alike, and undoes nothing.
\<close>

definition mutation ::
  "string \<Rightarrow> (store \<Rightarrow> (string + 'a) \<times> store) \<Rightarrow> string \<Rightarrow> ('a \<Rightarrow> payload) \<Rightarrow> ('a \<Rightarrow> 'r)
     \<Rightarrow> world \<Rightarrow> (string + 'r) \<times> world" where
  "mutation prefix write topic event ret w =
     (case write (db w) of
        (Inl msg, s) \<Rightarrow> (Inl (prefix @ msg), w\<lparr>db := s\<rparr>)
      | (Inr x, s) \<Rightarrow>
          (case publish topic (event x) (pubsub w) of
             Inl msg \<Rightarrow> (Inl (prefix @ msg), w\<lparr>db := s\<rparr>)
           | Inr ps \<Rightarrow> (Inr (ret x), \<lparr>pubsub = ps, db = s\<rparr>)))"

definition addProduct ::
  "string arg \<Rightarrow> int arg \<Rightarrow> string arg \<Rightarrow> StatusEnum arg \<Rightarrow> world \<Rightarrow> (string + product) \<times> world" where
  "addProduct name price category status =
     mutation ''Failed to add product: '' (Product_create name price category status)
       ''PRODUCT_ADDED'' productAdded (\<lambda>product. product)"

definition updateProduct ::
  "oid \<Rightarrow> string arg \<Rightarrow> int arg \<Rightarrow> string arg \<Rightarrow> StatusEnum arg \<Rightarrow> world
     \<Rightarrow> (string + product option) \<times> world" where
  "updateProduct i name price category status =
     mutation ''Failed to update product: '' (Product_findByIdAndUpdate i name price category status)
       ''PRODUCT_UPDATED'' productUpdated (\<lambda>product. product)"

definition deleteProduct :: "oid \<Rightarrow> world \<Rightarrow> (string + bool) \<times> world" where
  "deleteProduct i =
     mutation ''Failed to delete product: '' (Product_findByIdAndDelete i)
       ''PRODUCT_DELETED'' (\<lambda>_. productDeleted i) (\<lambda>_. True)"

definition addUser ::
  "string arg \<Rightarrow> string arg \<Rightarrow> RoleEnum arg \<Rightarrow> world \<Rightarrow> (string + user) \<times> world" where
  "addUser username email role =
     mutation ''Failed to add user: '' (User_create username email role)
       ''USER_ADDED'' userAdded (\<lambda>user. user)"

definition updateUser ::
  "oid \<Rightarrow> string arg \<Rightarrow> string arg \<Rightarrow> RoleEnum arg \<Rightarrow> world \<Rightarrow> (string + user option) \<times> world" where
  "updateUser i username email role =
     mutation ''Failed to update user: '' (User_findByIdAndUpdate i username email role)
       ''USER_UPDATED'' userUpdated (\<lambda>user. user)"

definition deleteUser :: "oid \<Rightarrow> world \<Rightarrow> (string + bool) \<times> world" where
  "deleteUser i =
     mutation ''Failed to delete user: '' (User_findByIdAndDelete i)
       ''USER_DELETED'' (\<lambda>_. userDeleted i) (\<lambda>_. True)"

definition addOrder ::
  "oid list arg \<Rightarrow> oid arg \<Rightarrow> int arg \<Rightarrow> OrderStatusEnum arg \<Rightarrow> world \<Rightarrow> (string + order) \<times> world" where
  "addOrder prods usr tot status =
     mutation ''Failed to add order: '' (Order_create prods usr tot status)
       ''ORDER_ADDED'' orderAdded (\<lambda>order. order)"

definition updateOrder ::
  "oid \<Rightarrow> oid list arg \<Rightarrow> oid arg \<Rightarrow> int arg \<Rightarrow> OrderStatusEnum arg \<Rightarrow> world
     \<Rightarrow> (string + order option) \<times> world" where
  "updateOrder i prods usr tot status =
     mutation ''Failed to update order: '' (Order_findByIdAndUpdate i prods usr tot status)
       ''ORDER_UPDATED'' orderUpdated (\<lambda>order. order)"

definition deleteOrder :: "oid \<Rightarrow> world \<Rightarrow> (string + bool) \<times> world" where
  "deleteOrder i =
     mutation ''Failed to delete order: '' (Order_findByIdAndDelete i)
       ''ORDER_DELETED'' (\<lambda>_. orderDeleted i) (\<lambda>_. True)"

section \<open>A shop to run the resolvers on\<close>

text \<open>
  Three products, two users and two orders. The first order names a product twice and
  out of the collection's order; the second names a product and a user that do not
  exist. \<open>shipped\<close> is the module as it stands, \<open>wired\<close> the module with the
  \<open>PubSub\<close> declared.
\<close>

definition keyboard :: product where
  "keyboard = \<lparr>p_id = 1, p_name = Some ''KeyBoard'', p_price = Some 99,
                p_category = Some ''Electronics'', p_status = Some ACTIVE\<rparr>"

definition mouse :: product where
  "mouse = \<lparr>p_id = 2, p_name = Some ''Mouse'', p_price = Some 25,
             p_category = Some ''Electronics'', p_status = Some INACTIVE\<rparr>"

definition cable :: product where
  "cable = \<lparr>p_id = 3, p_name = Some ''Cable'', p_price = Some 5,
             p_category = None, p_status = None\<rparr>"

definition user_1 :: user where
  "user_1 = \<lparr>u_id = 4, u_username = Some ''user_1'', u_email = Some ''user_1@ymail.com'',
              u_role = Some CUSTOMER\<rparr>"

definition user_2 :: user where
  "user_2 = \<lparr>u_id = 5, u_username = Some ''user_2'', u_email = Some ''user_2@ymail.com'',
              u_role = Some ADMIN\<rparr>"

definition order_a :: order where
  "order_a = \<lparr>o_id = 6, o_products = Some [2, 1, 2], o_user = Some 4, o_total = Some 200,
               o_status = Some COMPLETED\<rparr>"

definition order_b :: order where
  "order_b = \<lparr>o_id = 7, o_products = Some [9], o_user = Some 8, o_total = Some 99,
               o_status = Some PENDING\<rparr>"

definition shop :: store where
  "shop = \<lparr>products = [keyboard, mouse, cable], users = [user_1, user_2],
            orders = [order_a, order_b], next_id = 10, fault = None, calls = []\<rparr>"

definition shipped :: world where
  "shipped = \<lparr>pubsub = None, db = shop\<rparr>"

definition wired :: world where
  "wired = \<lparr>pubsub = Some [], db = shop\<rparr>"

section \<open>Lemmas on the store\<close>

lemma exec_ok: "fault s = None \<Longrightarrow> exec m f run s = (case run (s\<lparr>calls := calls s @ [(m, f)]\<rparr>) of (a, s2) \<Rightarrow> (Inr a, s2))"
  by (simp add: exec_def)

lemma exec_fault: "fault s = Some msg \<Longrightarrow> exec m f run s = (Inl msg, s\<lparr>calls := calls s @ [(m, f)]\<rparr>)"
  by (simp add: exec_def)

lemmas shop_defs = shop_def keyboard_def mouse_def cable_def user_1_def user_2_def
  order_a_def order_b_def shipped_def wired_def

section \<open>Listing products\<close>

text \<open>
  C7. With \<open>onlyActive = true\<close> the products query returns exactly the stored products
  whose status is ACTIVE: every returned product is a stored ACTIVE product, every
  stored ACTIVE product is returned, in the order of the collection.
\<close>

theorem products_onlyActive_exact:
  assumes "fault s = None"
  shows "\<exists>ps. fst (Query_products (Val True) s) = Inr ps
           \<and> ps = filter (\<lambda>p. p_status p = Some ACTIVE) (products s)
           \<and> (\<forall>p. p \<in> set ps \<longleftrightarrow> p \<in> set (products s) \<and> p_status p = Some ACTIVE)"
  using assms by (auto simp: Query_products_def Product_find_def exec_ok rethrow_def)

theorem products_onlyActive_exact_witness:
  "fault shop = None \<and> fst (Query_products (Val True) shop) = Inr [keyboard]"
  using products_onlyActive_exact [of shop] by (simp add: shop_defs)

text \<open>
  C10. With \<open>onlyActive\<close> left out, null or false the products query returns the whole
  collection, the INACTIVE products and those with no status included.
\<close>

theorem products_unfiltered_returns_all:
  assumes "fault s = None"
    and "onlyActive = Undefined \<or> onlyActive = Null \<or> onlyActive = Val False"
  shows "fst (Query_products onlyActive s) = Inr (products s)"
  using assms by (auto simp: Query_products_def Product_find_def exec_ok rethrow_def)

theorem products_unfiltered_returns_all_witness:
  "fst (Query_products Undefined shop) = Inr [keyboard, mouse, cable]
   \<and> fst (Query_products Null shop) = Inr [keyboard, mouse, cable]
   \<and> fst (Query_products (Val False) shop) = Inr [keyboard, mouse, cable]
   \<and> p_status mouse = Some INACTIVE \<and> p_status cable = None"
  using products_unfiltered_returns_all [of shop Undefined]
    products_unfiltered_returns_all [of shop Null]
    products_unfiltered_returns_all [of shop "Val False"]
  by (simp add: shop_defs)

section \<open>Listing orders\<close>

text \<open>
  C6. The orders query with \<open>userId\<close> set to user 4 returns both orders of the shop,
  the one that belongs to another user included: the argument is never read.
\<close>

theorem orders_userId_ignored:
  "fst (Query_orders (Val 4) shop) = Inr [order_a, order_b] \<and> o_user order_b \<noteq> Some 4"
  by (simp add: Query_orders_def Order_find_def exec_def rethrow_def shop_defs)

lemma Query_orders_any_userId: "Query_orders userId s = Query_orders Undefined s"
  by (simp add: Query_orders_def)

section \<open>Resolving the fields of orders\<close>

lemma Order_products_eq:
  "Order_products order s =
     ((case fault s of Some msg \<Rightarrow> Inl msg
       | None \<Rightarrow> Inr (filter (\<lambda>p. p_id p \<in> set (references order)) (products s))),
      s\<lparr>calls := calls s @ [(ProductModel, Find)]\<rparr>)"
  by (simp add: Order_products_def Product_find_def exec_def split: option.splits)

lemma Order_user_eq:
  "Order_user order s =
     ((case fault s of Some msg \<Rightarrow> Inl (''Failed to fetch user for order: '' @ msg)
       | None \<Rightarrow> Inr (find (\<lambda>u. Some (u_id u) = o_user order) (users s))),
      s\<lparr>calls := calls s @ [(UserModel, FindOne)]\<rparr>)"
  by (simp add: Order_user_def User_findOne_def exec_def rethrow_def split: option.splits)

lemma resolve_order_eq:
  "resolve_order order s =
     (\<lparr>r_order = order,
       r_user = (case fault s of Some msg \<Rightarrow> Inl (''Failed to fetch user for order: '' @ msg)
                 | None \<Rightarrow> Inr (find (\<lambda>u. Some (u_id u) = o_user order) (users s))),
       r_products = (case fault s of Some msg \<Rightarrow> Inl msg
                     | None \<Rightarrow> Inr (filter (\<lambda>p. p_id p \<in> set (references order)) (products s)))\<rparr>,
      s\<lparr>calls := calls s @ [(UserModel, FindOne), (ProductModel, Find)]\<rparr>)"
  by (simp add: resolve_order_def Order_user_eq Order_products_eq split: option.splits)

lemma resolve_order_calls: "fst (resolve_order order (s\<lparr>calls := cs\<rparr>)) = fst (resolve_order order s)"
  by (simp add: resolve_order_eq split: option.splits)

lemma resolve_orders_eq:
  "resolve_orders found s =
     (map (\<lambda>order. fst (resolve_order order s)) found,
      s\<lparr>calls := calls s @ concat (map (\<lambda>order. [(UserModel, FindOne), (ProductModel, Find)]) found)\<rparr>)"
proof (induction found arbitrary: s)
  case Nil
  then show ?case by simp
next
  case (Cons order rest)
  let ?s1 = "s\<lparr>calls := calls s @ [(UserModel, FindOne), (ProductModel, Find)]\<rparr>"
  obtain r where r: "resolve_order order s = (r, ?s1)"
    by (simp add: resolve_order_eq)
  have rest: "resolve_orders rest ?s1 =
      (map (\<lambda>order. fst (resolve_order order s)) rest,
       s\<lparr>calls := calls s @ concat (map (\<lambda>order. [(UserModel, FindOne), (ProductModel, Find)]) (order # rest))\<rparr>)"
    using Cons.IH [of ?s1] by (simp add: resolve_order_calls)
  show ?case
    by (simp only: resolve_orders.simps r rest prod.case list.map fst_conv)
qed

lemma lookups_pass:
  "lookups m (s\<lparr>calls := calls s @ concat (map (\<lambda>order. [(UserModel, FindOne), (ProductModel, Find)]) found)\<rparr>)
     = lookups m s + (if m = UserModel \<or> m = ProductModel then length found else 0)"
  by (induction found) (auto simp: lookups_def)

lemma Query_order_eq:
  "fault s = None \<Longrightarrow> Query_order i s = (Inr (find (\<lambda>r. o_id r = i) (orders s)), s\<lparr>calls := calls s @ [(OrderModel, FindById)]\<rparr>)"
  by (simp add: Query_order_def Order_findById_def exec_def rethrow_def)

text \<open>
  C1, as the claim states it, fails: listing the two orders of the shop with their
  fields makes two lookups on the User model and two on the Product model, where the
  claim allows one for each.
\<close>

theorem field_lookups_grow_with_result_set:
  "lookups UserModel (snd (listOrders Undefined shop)) = 2
   \<and> lookups ProductModel (snd (listOrders Undefined shop)) = 2
   \<and> lookups UserModel shop = 0 \<and> lookups ProductModel shop = 0"
  by (simp add: listOrders_def Query_orders_def Order_find_def exec_def rethrow_def
      resolve_order_eq lookups_def shop_def)

text \<open>
  C1, amended. The fields of a result set are resolved record by record: the output is
  the list of the records each resolved on its own, and the pass makes exactly one
  lookup on the User model and one on the Product model for every order of the result
  set (and none on the Order model), whether the store answers or rejects.
\<close>

theorem resolve_orders_per_record:
  "fst (resolve_orders found s) = map (\<lambda>order. fst (resolve_order order s)) found
   \<and> lookups UserModel (snd (resolve_orders found s)) = lookups UserModel s + length found
   \<and> lookups ProductModel (snd (resolve_orders found s)) = lookups ProductModel s + length found
   \<and> lookups OrderModel (snd (resolve_orders found s)) = lookups OrderModel s"
  by (simp add: resolve_orders_eq lookups_pass)

text \<open>
  C9, as the claim states it, fails: the first order of the shop references the
  products 2, 1, 2 and its products field resolves to the keyboard (1) and the mouse
  (2), two products for three references and in the order of the collection.
\<close>

theorem order_products_not_positional:
  "fst (Order_products order_a shop) = Inr [keyboard, mouse]
   \<and> map p_id [keyboard, mouse] = [1, 2] \<and> references order_a = [2, 1, 2]"
  by (simp add: Order_products_def Product_find_def exec_def references_def shop_defs)

text \<open>
  C9, amended. The products field of an order resolves to the stored products whose
  identity occurs among the order's references, in the order of the collection: each
  stored product at most once (given distinct identities in the store), whatever the
  order and the multiplicity of the references.
\<close>

theorem order_products_store_order:
  assumes "fault s = None"
  shows "\<exists>ps. fst (Order_products order s) = Inr ps
           \<and> ps = filter (\<lambda>p. p_id p \<in> set (references order)) (products s)
           \<and> (\<forall>p. p \<in> set ps \<longleftrightarrow> p \<in> set (products s) \<and> p_id p \<in> set (references order))
           \<and> (distinct (map p_id (products s)) \<longrightarrow> distinct (map p_id ps))"
  using assms by (auto simp: Order_products_eq distinct_map_filter)

theorem order_products_store_order_witness:
  "fault shop = None \<and> distinct (map p_id (products shop))
   \<and> fst (Order_products order_a shop) = Inr [keyboard, mouse]
   \<and> distinct (map p_id [keyboard, mouse])"
  using order_products_store_order [of shop order_a]
  by (simp add: shop_defs references_def)

text \<open>
  C8, as the claim states it, fails for products: the second order of the shop
  references a product and a user that do not exist; reading it succeeds, its user
  resolves to null, and its products field is the empty list, with no value standing
  for the missing product.
\<close>

theorem dangling_product_has_no_marker:
  "fst (getOrder 7 shop) = Inr (Some \<lparr>r_order = order_b, r_user = Inr None, r_products = Inr []\<rparr>)
   \<and> references order_b = [9]"
  by (simp add: getOrder_def Query_order_eq resolve_order_eq references_def shop_defs)

text \<open>
  C8, amended. Reading a stored order succeeds whatever its references point to: the
  order is returned, its user field is the stored user with the referenced identity
  and null when there is none, and its products field lists the stored products
  among its references, a missing product being left out of the list.
\<close>

theorem getOrder_tolerates_dangling:
  assumes "fault s = None" and "find (\<lambda>r. o_id r = i) (orders s) = Some order"
  shows "fst (getOrder i s) = Inr (Some
           \<lparr>r_order = order,
            r_user = Inr (find (\<lambda>u. Some (u_id u) = o_user order) (users s)),
            r_products = Inr (filter (\<lambda>p. p_id p \<in> set (references order)) (products s))\<rparr>)
         \<and> ((\<forall>u \<in> set (users s). Some (u_id u) \<noteq> o_user order)
              \<longrightarrow> find (\<lambda>u. Some (u_id u) = o_user order) (users s) = None)"
  using assms by (auto simp: getOrder_def Query_order_eq resolve_order_eq find_None_iff)

theorem getOrder_tolerates_dangling_witness:
  "fault shop = None \<and> find (\<lambda>r. o_id r = 7) (orders shop) = Some order_b
   \<and> o_user order_b = Some 8 \<and> map u_id (users shop) = [4, 5]
   \<and> fst (getOrder 7 shop) = Inr (Some \<lparr>r_order = order_b, r_user = Inr None, r_products = Inr []\<rparr>)"
proof -
  have a: "fault shop = None" by (simp add: shop_def)
  have b: "find (\<lambda>r. o_id r = 7) (orders shop) = Some order_b" by (simp add: shop_defs)
  have c: "\<forall>u \<in> set (users shop). Some (u_id u) \<noteq> o_user order_b" by (simp add: shop_defs)
  show ?thesis
    using a b c getOrder_tolerates_dangling [OF a b]
    by (simp add: shop_defs references_def)
qed

section \<open>Mutations\<close>

lemma find_update_first:
  "find c xs = Some x \<Longrightarrow> c y \<Longrightarrow> find c (update_first c (\<lambda>_. y) xs) = Some y"
  by (induction xs) (auto split: if_splits)

lemma find_absent: "i \<notin> k ` set xs \<Longrightarrow> find (\<lambda>d. k d = i) xs = None"
  by (induction xs) auto

lemma find_delete_first:
  "distinct (map k xs) \<Longrightarrow> find (\<lambda>d. k d = i) (delete_first (\<lambda>d. k d = i) xs) = None"
  by (induction xs) (auto simp: find_absent)

lemma delete_first_absent:
  "find c xs = None \<Longrightarrow> delete_first c xs = xs"
  by (induction xs) (auto split: if_splits)

lemma mutation_write_failed:
  "write (db w) = (Inl msg, s) \<Longrightarrow>
     mutation prefix write topic event ret w = (Inl (prefix @ msg), w\<lparr>db := s\<rparr>)"
  by (simp add: mutation_def)

lemma mutation_published:
  "write (db w) = (Inr x, s) \<Longrightarrow> pubsub w = Some evs \<Longrightarrow>
     mutation prefix write topic event ret w =
       (Inr (ret x), \<lparr>pubsub = Some (evs @ [(topic, event x)]), db = s\<rparr>)"
  by (simp add: mutation_def)

lemma mutation_undeclared:
  "write (db w) = (Inr x, s) \<Longrightarrow> pubsub w = None \<Longrightarrow>
     mutation prefix write topic event ret w =
       (Inl (prefix @ ''pubsub is not defined''), w\<lparr>db := s\<rparr>)"
  by (simp add: mutation_def)

lemma mutation_db: "db (snd (mutation prefix write topic event ret w)) = snd (write (db w))"
  by (cases "write (db w)") (auto simp: mutation_def split: sum.splits option.splits)

lemma mutation_not:
  "(\<And>x. ret x \<noteq> v) \<Longrightarrow> fst (mutation prefix write topic event ret w) \<noteq> Inr v"
  by (cases "write (db w)") (auto simp: mutation_def split: sum.splits)

lemma Product_delete_eq:
  "fault s = None \<Longrightarrow> Product_findByIdAndDelete i s =
     (Inr (find (\<lambda>p. p_id p = i) (products s)),
      s\<lparr>calls := calls s @ [(ProductModel, FindByIdAndDelete)],
        products := delete_first (\<lambda>p. p_id p = i) (products s)\<rparr>)"
  by (simp add: Product_findByIdAndDelete_def exec_def)

lemma User_delete_eq:
  "fault s = None \<Longrightarrow> User_findByIdAndDelete i s =
     (Inr (find (\<lambda>u. u_id u = i) (users s)),
      s\<lparr>calls := calls s @ [(UserModel, FindByIdAndDelete)],
        users := delete_first (\<lambda>u. u_id u = i) (users s)\<rparr>)"
  by (simp add: User_findByIdAndDelete_def exec_def)

lemma Order_delete_eq:
  "fault s = None \<Longrightarrow> Order_findByIdAndDelete i s =
     (Inr (find (\<lambda>r. o_id r = i) (orders s)),
      s\<lparr>calls := calls s @ [(OrderModel, FindByIdAndDelete)],
        orders := delete_first (\<lambda>r. o_id r = i) (orders s)\<rparr>)"
  by (simp add: Order_findByIdAndDelete_def exec_def)

lemma deleteProduct_eq:
  "fault (db w) = None \<Longrightarrow> pubsub w = Some evs \<Longrightarrow> deleteProduct i w =
     (Inr True, \<lparr>pubsub = Some (evs @ [(''PRODUCT_DELETED'', productDeleted i)]),
                 db = (db w)\<lparr>calls := calls (db w) @ [(ProductModel, FindByIdAndDelete)],
                   products := delete_first (\<lambda>p. p_id p = i) (products (db w))\<rparr>\<rparr>)"
  unfolding deleteProduct_def by (rule mutation_published [OF Product_delete_eq])

lemma deleteUser_eq:
  "fault (db w) = None \<Longrightarrow> pubsub w = Some evs \<Longrightarrow> deleteUser i w =
     (Inr True, \<lparr>pubsub = Some (evs @ [(''USER_DELETED'', userDeleted i)]),
                 db = (db w)\<lparr>calls := calls (db w) @ [(UserModel, FindByIdAndDelete)],
                   users := delete_first (\<lambda>u. u_id u = i) (users (db w))\<rparr>\<rparr>)"
  unfolding deleteUser_def by (rule mutation_published [OF User_delete_eq])

lemma deleteOrder_eq:
  "fault (db w) = None \<Longrightarrow> pubsub w = Some evs \<Longrightarrow> deleteOrder i w =
     (Inr True, \<lparr>pubsub = Some (evs @ [(''ORDER_DELETED'', orderDeleted i)]),
                 db = (db w)\<lparr>calls := calls (db w) @ [(OrderModel, FindByIdAndDelete)],
                   orders := delete_first (\<lambda>r. o_id r = i) (orders (db w))\<rparr>\<rparr>)"
  unfolding deleteOrder_def by (rule mutation_published [OF Order_delete_eq])

lemma deleteProduct_store:
  "fault (db w) = None \<Longrightarrow> db (snd (deleteProduct i w)) =
     (db w)\<lparr>calls := calls (db w) @ [(ProductModel, FindByIdAndDelete)],
       products := delete_first (\<lambda>p. p_id p = i) (products (db w))\<rparr>"
  by (simp add: deleteProduct_def mutation_db Product_delete_eq)

lemma deleteUser_store:
  "fault (db w) = None \<Longrightarrow> db (snd (deleteUser i w)) =
     (db w)\<lparr>calls := calls (db w) @ [(UserModel, FindByIdAndDelete)],
       users := delete_first (\<lambda>u. u_id u = i) (users (db w))\<rparr>"
  by (simp add: deleteUser_def mutation_db User_delete_eq)

lemma deleteOrder_store:
  "fault (db w) = None \<Longrightarrow> db (snd (deleteOrder i w)) =
     (db w)\<lparr>calls := calls (db w) @ [(OrderModel, FindByIdAndDelete)],
       orders := delete_first (\<lambda>r. o_id r = i) (orders (db w))\<rparr>"
  by (simp add: deleteOrder_def mutation_db Order_delete_eq)

text \<open>
  C3, as the claim states it, fails: with the \<open>PubSub\<close> declared, deleting product 9,
  which the shop does not hold, returns true, and deleting user 4 twice returns true
  both times; in the module as it stands the delete of product 9 throws.
\<close>

theorem delete_missing_not_false:
  "find (\<lambda>p. p_id p = 9) (products (db wired)) = None
   \<and> fst (deleteProduct 9 wired) = Inr True
   \<and> fst (deleteUser 4 wired) = Inr True
   \<and> fst (deleteUser 4 (snd (deleteUser 4 wired))) = Inr True
   \<and> fst (deleteProduct 9 shipped) = Inl ''Failed to delete product: pubsub is not defined''"
  by (simp add: deleteProduct_def deleteUser_def mutation_def Product_findByIdAndDelete_def
      User_findByIdAndDelete_def exec_def shop_defs)

text \<open>
  C3, amended. A delete resolver never returns false. Whenever the store answers, it
  removes the first document with that identity from its collection, so that (given
  distinct identities) none is left, whatever becomes of the publish. When the
  \<open>PubSub\<close> is declared as well, it returns true whether or not a document with
  that identity exists, and a second delete of the same identity returns true again.
\<close>

theorem delete_returns_true:
  "fst (deleteProduct i w) \<noteq> Inr False \<and> fst (deleteUser i w) \<noteq> Inr False
   \<and> fst (deleteOrder i w) \<noteq> Inr False
   \<and> (fault (db w) = None \<longrightarrow>
        products (db (snd (deleteProduct i w))) = delete_first (\<lambda>p. p_id p = i) (products (db w))
      \<and> (distinct (map p_id (products (db w))) \<longrightarrow>
            find (\<lambda>p. p_id p = i) (products (db (snd (deleteProduct i w)))) = None)
      \<and> users (db (snd (deleteUser i w))) = delete_first (\<lambda>u. u_id u = i) (users (db w))
      \<and> (distinct (map u_id (users (db w))) \<longrightarrow>
            find (\<lambda>u. u_id u = i) (users (db (snd (deleteUser i w)))) = None)
      \<and> orders (db (snd (deleteOrder i w))) = delete_first (\<lambda>r. o_id r = i) (orders (db w))
      \<and> (distinct (map o_id (orders (db w))) \<longrightarrow>
            find (\<lambda>r. o_id r = i) (orders (db (snd (deleteOrder i w)))) = None))
   \<and> (fault (db w) = None \<and> pubsub w \<noteq> None \<longrightarrow>
        fst (deleteProduct i w) = Inr True
      \<and> fst (deleteProduct i (snd (deleteProduct i w))) = Inr True
      \<and> fst (deleteUser i w) = Inr True
      \<and> fst (deleteUser i (snd (deleteUser i w))) = Inr True
      \<and> fst (deleteOrder i w) = Inr True
      \<and> fst (deleteOrder i (snd (deleteOrder i w))) = Inr True)"
proof -
  have never: "fst (deleteProduct i w) \<noteq> Inr False" "fst (deleteUser i w) \<noteq> Inr False"
    "fst (deleteOrder i w) \<noteq> Inr False"
    unfolding deleteProduct_def deleteUser_def deleteOrder_def
    by (rule mutation_not, simp)+
  have removed: "products (db (snd (deleteProduct i w))) = delete_first (\<lambda>p. p_id p = i) (products (db w))
      \<and> (distinct (map p_id (products (db w))) \<longrightarrow>
            find (\<lambda>p. p_id p = i) (products (db (snd (deleteProduct i w)))) = None)
      \<and> users (db (snd (deleteUser i w))) = delete_first (\<lambda>u. u_id u = i) (users (db w))
      \<and> (distinct (map u_id (users (db w))) \<longrightarrow>
            find (\<lambda>u. u_id u = i) (users (db (snd (deleteUser i w)))) = None)
      \<and> orders (db (snd (deleteOrder i w))) = delete_first (\<lambda>r. o_id r = i) (orders (db w))
      \<and> (distinct (map o_id (orders (db w))) \<longrightarrow>
            find (\<lambda>r. o_id r = i) (orders (db (snd (deleteOrder i w)))) = None)"
    if "fault (db w) = None"
    using that by (simp add: deleteProduct_store deleteUser_store deleteOrder_store find_delete_first)
  have wired: "fst (deleteProduct i w) = Inr True
      \<and> fst (deleteProduct i (snd (deleteProduct i w))) = Inr True
      \<and> fst (deleteUser i w) = Inr True
      \<and> fst (deleteUser i (snd (deleteUser i w))) = Inr True
      \<and> fst (deleteOrder i w) = Inr True
      \<and> fst (deleteOrder i (snd (deleteOrder i w))) = Inr True"
    if "fault (db w) = None" and "pubsub w = Some evs" for evs
    using that by (simp add: deleteProduct_eq deleteUser_eq deleteOrder_eq)
  show ?thesis using never removed wired by auto
qed

theorem delete_returns_true_witness:
  "fault (db wired) = None \<and> pubsub wired \<noteq> None
   \<and> fst (deleteProduct 1 wired) = Inr True
   \<and> products (db (snd (deleteProduct 1 wired))) = [mouse, cable]
   \<and> find (\<lambda>p. p_id p = 1) [mouse, cable] = None
   \<and> fst (deleteProduct 1 (snd (deleteProduct 1 wired))) = Inr True
   \<and> fault (db shipped) = None \<and> pubsub shipped = None
   \<and> products (db (snd (deleteProduct 1 shipped))) = [mouse, cable]"
  using delete_returns_true [of 1 wired] delete_returns_true [of 1 shipped]
  by (simp add: shop_defs)

subsection \<open>Updates\<close>

lemma update_first_absent: "find c xs = None \<Longrightarrow> update_first c f xs = xs"
  by (induction xs) (auto split: if_splits)

lemma Product_update_eq:
  "fault s = None \<Longrightarrow> Product_findByIdAndUpdate i name price category status s =
     (case find (\<lambda>p. p_id p = i) (products s) of
        None \<Rightarrow> (Inr None, s\<lparr>calls := calls s @ [(ProductModel, FindByIdAndUpdate)]\<rparr>)
      | Some p \<Rightarrow>
          (Inr (Some (p\<lparr>p_name := assign name (p_name p), p_price := assign price (p_price p),
                        p_category := assign category (p_category p),
                        p_status := assign status (p_status p)\<rparr>)),
           s\<lparr>calls := calls s @ [(ProductModel, FindByIdAndUpdate)],
             products := update_first (\<lambda>q. p_id q = i)
               (\<lambda>_. p\<lparr>p_name := assign name (p_name p), p_price := assign price (p_price p),
                        p_category := assign category (p_category p),
                        p_status := assign status (p_status p)\<rparr>) (products s)\<rparr>))"
  by (simp add: Product_findByIdAndUpdate_def exec_def Let_def split: option.splits)

lemma User_update_eq:
  "fault s = None \<Longrightarrow> User_findByIdAndUpdate i username email role s =
     (case find (\<lambda>u. u_id u = i) (users s) of
        None \<Rightarrow> (Inr None, s\<lparr>calls := calls s @ [(UserModel, FindByIdAndUpdate)]\<rparr>)
      | Some u \<Rightarrow>
          (Inr (Some (u\<lparr>u_username := assign username (u_username u),
                        u_email := assign email (u_email u), u_role := assign role (u_role u)\<rparr>)),
           s\<lparr>calls := calls s @ [(UserModel, FindByIdAndUpdate)],
             users := update_first (\<lambda>q. u_id q = i)
               (\<lambda>_. u\<lparr>u_username := assign username (u_username u),
                        u_email := assign email (u_email u), u_role := assign role (u_role u)\<rparr>)
               (users s)\<rparr>))"
  by (simp add: User_findByIdAndUpdate_def exec_def Let_def split: option.splits)

lemma Order_update_eq:
  "fault s = None \<Longrightarrow> Order_findByIdAndUpdate i prods usr tot status s =
     (case find (\<lambda>r. o_id r = i) (orders s) of
        None \<Rightarrow> (Inr None, s\<lparr>calls := calls s @ [(OrderModel, FindByIdAndUpdate)]\<rparr>)
      | Some r \<Rightarrow>
          (Inr (Some (r\<lparr>o_products := assign prods (o_products r), o_user := assign usr (o_user r),
                        o_total := assign tot (o_total r), o_status := assign status (o_status r)\<rparr>)),
           s\<lparr>calls := calls s @ [(OrderModel, FindByIdAndUpdate)],
             orders := update_first (\<lambda>q. o_id q = i)
               (\<lambda>_. r\<lparr>o_products := assign prods (o_products r), o_user := assign usr (o_user r),
                        o_total := assign tot (o_total r), o_status := assign status (o_status r)\<rparr>)
               (orders s)\<rparr>))"
  by (simp add: Order_findByIdAndUpdate_def exec_def Let_def split: option.splits)

lemma find_key: "find (\<lambda>d. k d = i) xs = Some x \<Longrightarrow> k x = i"
  by (induction xs) (auto split: if_splits)

lemma updateProduct_missing:
  assumes "fault (db w) = None" and "find (\<lambda>p. p_id p = i) (products (db w)) = None"
  shows "products (db (snd (updateProduct i name price category status w))) = products (db w)"
    and "pubsub w = Some evs \<Longrightarrow> updateProduct i name price category status w =
           (Inr None, \<lparr>pubsub = Some (evs @ [(''PRODUCT_UPDATED'', productUpdated None)]),
                       db = (db w)\<lparr>calls := calls (db w) @ [(ProductModel, FindByIdAndUpdate)]\<rparr>\<rparr>)"
  using assms
  by (simp add: updateProduct_def mutation_db Product_update_eq, simp add: updateProduct_def mutation_def Product_update_eq)

lemma updateUser_missing:
  assumes "fault (db w) = None" and "find (\<lambda>u. u_id u = i) (users (db w)) = None"
  shows "users (db (snd (updateUser i username email role w))) = users (db w)"
    and "pubsub w = Some evs \<Longrightarrow> updateUser i username email role w =
           (Inr None, \<lparr>pubsub = Some (evs @ [(''USER_UPDATED'', userUpdated None)]),
                       db = (db w)\<lparr>calls := calls (db w) @ [(UserModel, FindByIdAndUpdate)]\<rparr>\<rparr>)"
  using assms
  by (simp add: updateUser_def mutation_db User_update_eq, simp add: updateUser_def mutation_def User_update_eq)

lemma updateOrder_missing:
  assumes "fault (db w) = None" and "find (\<lambda>r. o_id r = i) (orders (db w)) = None"
  shows "orders (db (snd (updateOrder i prods usr tot status w))) = orders (db w)"
    and "pubsub w = Some evs \<Longrightarrow> updateOrder i prods usr tot status w =
           (Inr None, \<lparr>pubsub = Some (evs @ [(''ORDER_UPDATED'', orderUpdated None)]),
                       db = (db w)\<lparr>calls := calls (db w) @ [(OrderModel, FindByIdAndUpdate)]\<rparr>\<rparr>)"
  using assms
  by (simp add: updateOrder_def mutation_db Order_update_eq, simp add: updateOrder_def mutation_def Order_update_eq)

lemma updateProduct_existing:
  assumes "fault (db w) = None" and "find (\<lambda>p. p_id p = i) (products (db w)) = Some p"
  shows "find (\<lambda>q. p_id q = i) (products (db (snd (updateProduct i name price category status w))))
           = Some (p\<lparr>p_name := assign name (p_name p), p_price := assign price (p_price p),
                     p_category := assign category (p_category p),
                     p_status := assign status (p_status p)\<rparr>)"
    and "pubsub w = Some evs \<Longrightarrow> fst (updateProduct i name price category status w)
           = Inr (Some (p\<lparr>p_name := assign name (p_name p), p_price := assign price (p_price p),
                     p_category := assign category (p_category p),
                     p_status := assign status (p_status p)\<rparr>))"
proof -
  have "p_id p = i" using assms(2) by (rule find_key)
  then show "find (\<lambda>q. p_id q = i) (products (db (snd (updateProduct i name price category status w))))
           = Some (p\<lparr>p_name := assign name (p_name p), p_price := assign price (p_price p),
                     p_category := assign category (p_category p),
                     p_status := assign status (p_status p)\<rparr>)"
    using assms by (simp add: updateProduct_def mutation_db Product_update_eq find_update_first)
  show "pubsub w = Some evs \<Longrightarrow> fst (updateProduct i name price category status w)
           = Inr (Some (p\<lparr>p_name := assign name (p_name p), p_price := assign price (p_price p),
                     p_category := assign category (p_category p),
                     p_status := assign status (p_status p)\<rparr>))"
    using assms by (simp add: updateProduct_def mutation_def Product_update_eq)
qed

lemma updateUser_existing:
  assumes "fault (db w) = None" and "find (\<lambda>u. u_id u = i) (users (db w)) = Some u"
  shows "find (\<lambda>q. u_id q = i) (users (db (snd (updateUser i username email role w))))
           = Some (u\<lparr>u_username := assign username (u_username u),
                     u_email := assign email (u_email u), u_role := assign role (u_role u)\<rparr>)"
    and "pubsub w = Some evs \<Longrightarrow> fst (updateUser i username email role w)
           = Inr (Some (u\<lparr>u_username := assign username (u_username u),
                     u_email := assign email (u_email u), u_role := assign role (u_role u)\<rparr>))"
proof -
  have "u_id u = i" using assms(2) by (rule find_key)
  then show "find (\<lambda>q. u_id q = i) (users (db (snd (updateUser i username email role w))))
           = Some (u\<lparr>u_username := assign username (u_username u),
                     u_email := assign email (u_email u), u_role := assign role (u_role u)\<rparr>)"
    using assms by (simp add: updateUser_def mutation_db User_update_eq find_update_first)
  show "pubsub w = Some evs \<Longrightarrow> fst (updateUser i username email role w)
           = Inr (Some (u\<lparr>u_username := assign username (u_username u),
                     u_email := assign email (u_email u), u_role := assign role (u_role u)\<rparr>))"
    using assms by (simp add: updateUser_def mutation_def User_update_eq)
qed

lemma updateOrder_existing:
  assumes "fault (db w) = None" and "find (\<lambda>r. o_id r = i) (orders (db w)) = Some r"
  shows "find (\<lambda>q. o_id q = i) (orders (db (snd (updateOrder i prods usr tot status w))))
           = Some (r\<lparr>o_products := assign prods (o_products r), o_user := assign usr (o_user r),
                     o_total := assign tot (o_total r), o_status := assign status (o_status r)\<rparr>)"
    and "pubsub w = Some evs \<Longrightarrow> fst (updateOrder i prods usr tot status w)
           = Inr (Some (r\<lparr>o_products := assign prods (o_products r), o_user := assign usr (o_user r),
                     o_total := assign tot (o_total r), o_status := assign status (o_status r)\<rparr>))"
proof -
  have "o_id r = i" using assms(2) by (rule find_key)
  then show "find (\<lambda>q. o_id q = i) (orders (db (snd (updateOrder i prods usr tot status w))))
           = Some (r\<lparr>o_products := assign prods (o_products r), o_user := assign usr (o_user r),
                     o_total := assign tot (o_total r), o_status := assign status (o_status r)\<rparr>)"
    using assms by (simp add: updateOrder_def mutation_db Order_update_eq find_update_first)
  show "pubsub w = Some evs \<Longrightarrow> fst (updateOrder i prods usr tot status w)
           = Inr (Some (r\<lparr>o_products := assign prods (o_products r), o_user := assign usr (o_user r),
                     o_total := assign tot (o_total r), o_status := assign status (o_status r)\<rparr>))"
    using assms by (simp add: updateOrder_def mutation_def Order_update_eq)
qed

lemma Product_update_missing_snd:
  "find (\<lambda>q. p_id q = i) (products s) = None \<Longrightarrow>
     snd (Product_findByIdAndUpdate i name price category status s)
       = s\<lparr>calls := calls s @ [(ProductModel, FindByIdAndUpdate)]\<rparr>"
  by (simp add: Product_findByIdAndUpdate_def exec_def Let_def split: option.splits)

lemma Product_update_missing_fst:
  "find (\<lambda>q. p_id q = i) (products s) = None \<Longrightarrow>
     fst (Product_findByIdAndUpdate i name price category status s) \<noteq> Inr (Some v)"
  by (simp add: Product_findByIdAndUpdate_def exec_def Let_def split: option.splits)

lemma User_update_missing_snd:
  "find (\<lambda>q. u_id q = i) (users s) = None \<Longrightarrow>
     snd (User_findByIdAndUpdate i username email role s)
       = s\<lparr>calls := calls s @ [(UserModel, FindByIdAndUpdate)]\<rparr>"
  by (simp add: User_findByIdAndUpdate_def exec_def Let_def split: option.splits)

lemma User_update_missing_fst:
  "find (\<lambda>q. u_id q = i) (users s) = None \<Longrightarrow>
     fst (User_findByIdAndUpdate i username email role s) \<noteq> Inr (Some v)"
  by (simp add: User_findByIdAndUpdate_def exec_def Let_def split: option.splits)

lemma Order_update_missing_snd:
  "find (\<lambda>q. o_id q = i) (orders s) = None \<Longrightarrow>
     snd (Order_findByIdAndUpdate i prods usr tot status s)
       = s\<lparr>calls := calls s @ [(OrderModel, FindByIdAndUpdate)]\<rparr>"
  by (simp add: Order_findByIdAndUpdate_def exec_def Let_def split: option.splits)

lemma Order_update_missing_fst:
  "find (\<lambda>q. o_id q = i) (orders s) = None \<Longrightarrow>
     fst (Order_findByIdAndUpdate i prods usr tot status s) \<noteq> Inr (Some v)"
  by (simp add: Order_findByIdAndUpdate_def exec_def Let_def split: option.splits)

lemma mutation_value:
  "fst (mutation prefix write topic event ret w) = Inr v \<Longrightarrow>
     \<exists>x. fst (write (db w)) = Inr x \<and> v = ret x"
  by (cases "write (db w)") (auto simp: mutation_def split: sum.splits)

lemma exec_error: "fst (exec m f run s) = Inl e \<longleftrightarrow> fault s = Some e"
  by (auto simp: exec_def Let_def split: option.splits prod.splits)

lemma mutation_error:
  "fst (mutation prefix write topic event ret w) = Inl e \<longleftrightarrow>
     (\<exists>msg. fst (write (db w)) = Inl msg \<and> e = prefix @ msg)
     \<or> ((\<exists>x. fst (write (db w)) = Inr x) \<and> pubsub w = None \<and> e = prefix @ ''pubsub is not defined'')"
  by (cases "write (db w)"; cases "pubsub w") (auto simp: mutation_def split: sum.splits)

lemma mutation_error_origin:
  "fst (mutation prefix write topic event ret w) = Inl e \<Longrightarrow>
     \<exists>msg. e = prefix @ msg
        \<and> (fst (write (db w)) = Inl msg \<or> (\<forall>x. publish topic x (pubsub w) = Inl msg))"
  by (cases "write (db w)"; cases "pubsub w") (auto simp: mutation_def split: sum.splits)

lemma exec_value: "(\<exists>x. fst (exec m f run s) = Inr x) \<longleftrightarrow> fault s = None"
  by (auto simp: exec_def Let_def split: option.splits prod.splits)

lemma updateProduct_error_any_id:
  "fst (updateProduct i name price category status w) = Inl e \<Longrightarrow>
     fst (updateProduct j name price category status w) = Inl e"
  unfolding updateProduct_def mutation_error Product_findByIdAndUpdate_def exec_error exec_value
  by simp

lemma updateUser_error_any_id:
  "fst (updateUser i username email role w) = Inl e \<Longrightarrow>
     fst (updateUser j username email role w) = Inl e"
  unfolding updateUser_def mutation_error User_findByIdAndUpdate_def exec_error exec_value
  by simp

lemma updateOrder_error_any_id:
  "fst (updateOrder i prods usr tot status w) = Inl e \<Longrightarrow>
     fst (updateOrder j prods usr tot status w) = Inl e"
  unfolding updateOrder_def mutation_error Order_findByIdAndUpdate_def exec_error exec_value
  by simp


lemma updateProduct_error_origin:
  "fst (updateProduct i name price category status w) = Inl e \<Longrightarrow>
     \<exists>msg. e = ''Failed to update product: '' @ msg
        \<and> (fault (db w) = Some msg \<or> publish ''PRODUCT_UPDATED'' (productUpdated None) (pubsub w) = Inl msg)"
  unfolding updateProduct_def
  by (drule mutation_error_origin) (unfold Product_findByIdAndUpdate_def exec_error, blast)

lemma updateProduct_missing_all:
  "find (\<lambda>q. p_id q = i) (products (db w)) = None \<longrightarrow>
            products (db (snd (updateProduct i name price category status w))) = products (db w)
          \<and> users (db (snd (updateProduct i name price category status w))) = users (db w)
          \<and> orders (db (snd (updateProduct i name price category status w))) = orders (db w)
          \<and> fst (updateProduct i name price category status w) \<noteq> Inr (Some p)
          \<and> (fst (updateProduct i name price category status w) = Inl e \<longrightarrow>
                fst (updateProduct j name price category status w) = Inl e
              \<and> (\<exists>msg. e = ''Failed to update product: '' @ msg
                   \<and> (fault (db w) = Some msg
                      \<or> publish ''PRODUCT_UPDATED'' (productUpdated None) (pubsub w) = Inl msg)))
          \<and> (fault (db w) = None \<and> pubsub w = Some evs \<longrightarrow>
                fst (updateProduct i name price category status w) = Inr None
              \<and> pubsub (snd (updateProduct i name price category status w))
                  = Some (evs @ [(''PRODUCT_UPDATED'', productUpdated None)]))"
proof (rule impI)
  assume m: "find (\<lambda>q. p_id q = i) (products (db w)) = None"
  have st: "db (snd (updateProduct i name price category status w))
           = (db w)\<lparr>calls := calls (db w) @ [(ProductModel, FindByIdAndUpdate)]\<rparr>"
    by (simp add: updateProduct_def mutation_db Product_update_missing_snd [OF m])
  have a: "products (db (snd (updateProduct i name price category status w))) = products (db w)
          \<and> users (db (snd (updateProduct i name price category status w))) = users (db w)
          \<and> orders (db (snd (updateProduct i name price category status w))) = orders (db w)"
    by (simp add: st)
  have b: "fst (updateProduct i name price category status w) \<noteq> Inr (Some p)"
  proof
    assume "fst (updateProduct i name price category status w) = Inr (Some p)"
    then have "\<exists>x. fst (Product_findByIdAndUpdate i name price category status (db w)) = Inr x \<and> Some p = x"
      unfolding updateProduct_def by (rule mutation_value)
    then show False using Product_update_missing_fst [OF m] by blast
  qed
  have c: "(fst (updateProduct i name price category status w) = Inl e \<longrightarrow>
                fst (updateProduct j name price category status w) = Inl e
              \<and> (\<exists>msg. e = ''Failed to update product: '' @ msg
                   \<and> (fault (db w) = Some msg
                      \<or> publish ''PRODUCT_UPDATED'' (productUpdated None) (pubsub w) = Inl msg)))"
    using updateProduct_error_any_id updateProduct_error_origin
    by blast
  have d: "(fault (db w) = None \<and> pubsub w = Some evs \<longrightarrow>
                fst (updateProduct i name price category status w) = Inr None
              \<and> pubsub (snd (updateProduct i name price category status w))
                  = Some (evs @ [(''PRODUCT_UPDATED'', productUpdated None)]))"
  proof (rule impI)
    assume h: "fault (db w) = None \<and> pubsub w = Some evs"
    then have "updateProduct i name price category status w =
           (Inr None, \<lparr>pubsub = Some (evs @ [(''PRODUCT_UPDATED'', productUpdated None)]),
                       db = (db w)\<lparr>calls := calls (db w) @ [(ProductModel, FindByIdAndUpdate)]\<rparr>\<rparr>)"
      using updateProduct_missing(2) [OF _ m] by blast
    then show "fst (updateProduct i name price category status w) = Inr None
              \<and> pubsub (snd (updateProduct i name price category status w))
                  = Some (evs @ [(''PRODUCT_UPDATED'', productUpdated None)])"
      by simp
  qed
  show "products (db (snd (updateProduct i name price category status w))) = products (db w)
          \<and> users (db (snd (updateProduct i name price category status w))) = users (db w)
          \<and> orders (db (snd (updateProduct i name price category status w))) = orders (db w)
          \<and> fst (updateProduct i name price category status w) \<noteq> Inr (Some p)
          \<and> (fst (updateProduct i name price category status w) = Inl e \<longrightarrow>
                fst (updateProduct j name price category status w) = Inl e
              \<and> (\<exists>msg. e = ''Failed to update product: '' @ msg
                   \<and> (fault (db w) = Some msg
                      \<or> publish ''PRODUCT_UPDATED'' (productUpdated None) (pubsub w) = Inl msg)))
          \<and> (fault (db w) = None \<and> pubsub w = Some evs \<longrightarrow>
                fst (updateProduct i name price category status w) = Inr None
              \<and> pubsub (snd (updateProduct i name price category status w))
                  = Some (evs @ [(''PRODUCT_UPDATED'', productUpdated None)]))"
    using a b c d by blast
qed

lemma updateUser_error_origin:
  "fst (updateUser i username email role w) = Inl e \<Longrightarrow>
     \<exists>msg. e = ''Failed to update user: '' @ msg
        \<and> (fault (db w) = Some msg \<or> publish ''USER_UPDATED'' (userUpdated None) (pubsub w) = Inl msg)"
  unfolding updateUser_def
  by (drule mutation_error_origin) (unfold User_findByIdAndUpdate_def exec_error, blast)

lemma updateUser_missing_all:
  "find (\<lambda>q. u_id q = i) (users (db w)) = None \<longrightarrow>
            products (db (snd (updateUser i username email role w))) = products (db w)
          \<and> users (db (snd (updateUser i username email role w))) = users (db w)
          \<and> orders (db (snd (updateUser i username email role w))) = orders (db w)
          \<and> fst (updateUser i username email role w) \<noteq> Inr (Some u)
          \<and> (fst (updateUser i username email role w) = Inl e \<longrightarrow>
                fst (updateUser j username email role w) = Inl e
              \<and> (\<exists>msg. e = ''Failed to update user: '' @ msg
                   \<and> (fault (db w) = Some msg
                      \<or> publish ''USER_UPDATED'' (userUpdated None) (pubsub w) = Inl msg)))
          \<and> (fault (db w) = None \<and> pubsub w = Some evs \<longrightarrow>
                fst (updateUser i username email role w) = Inr None
              \<and> pubsub (snd (updateUser i username email role w))
                  = Some (evs @ [(''USER_UPDATED'', userUpdated None)]))"
proof (rule impI)
  assume m: "find (\<lambda>q. u_id q = i) (users (db w)) = None"
  have st: "db (snd (updateUser i username email role w))
           = (db w)\<lparr>calls := calls (db w) @ [(UserModel, FindByIdAndUpdate)]\<rparr>"
    by (simp add: updateUser_def mutation_db User_update_missing_snd [OF m])
  have a: "products (db (snd (updateUser i username email role w))) = products (db w)
          \<and> users (db (snd (updateUser i username email role w))) = users (db w)
          \<and> orders (db (snd (updateUser i username email role w))) = orders (db w)"
    by (simp add: st)
  have b: "fst (updateUser i username email role w) \<noteq> Inr (Some u)"
  proof
    assume "fst (updateUser i username email role w) = Inr (Some u)"
    then have "\<exists>x. fst (User_findByIdAndUpdate i username email role (db w)) = Inr x \<and> Some u = x"
      unfolding updateUser_def by (rule mutation_value)
    then show False using User_update_missing_fst [OF m] by blast
  qed
  have c: "(fst (updateUser i username email role w) = Inl e \<longrightarrow>
                fst (updateUser j username email role w) = Inl e
              \<and> (\<exists>msg. e = ''Failed to update user: '' @ msg
                   \<and> (fault (db w) = Some msg
                      \<or> publish ''USER_UPDATED'' (userUpdated None) (pubsub w) = Inl msg)))"
    using updateUser_error_any_id updateUser_error_origin
    by blast
  have d: "(fault (db w) = None \<and> pubsub w = Some evs \<longrightarrow>
                fst (updateUser i username email role w) = Inr None
              \<and> pubsub (snd (updateUser i username email role w))
                  = Some (evs @ [(''USER_UPDATED'', userUpdated None)]))"
  proof (rule impI)
    assume h: "fault (db w) = None \<and> pubsub w = Some evs"
    then have "updateUser i username email role w =
           (Inr None, \<lparr>pubsub = Some (evs @ [(''USER_UPDATED'', userUpdated None)]),
                       db = (db w)\<lparr>calls := calls (db w) @ [(UserModel, FindByIdAndUpdate)]\<rparr>\<rparr>)"
      using updateUser_missing(2) [OF _ m] by blast
    then show "fst (updateUser i username email role w) = Inr None
              \<and> pubsub (snd (updateUser i username email role w))
                  = Some (evs @ [(''USER_UPDATED'', userUpdated None)])"
      by simp
  qed
  show "products (db (snd (updateUser i username email role w))) = products (db w)
          \<and> users (db (snd (updateUser i username email role w))) = users (db w)
          \<and> orders (db (snd (updateUser i username email role w))) = orders (db w)
          \<and> fst (updateUser i username email role w) \<noteq> Inr (Some u)
          \<and> (fst (updateUser i username email role w) = Inl e \<longrightarrow>
                fst (updateUser j username email role w) = Inl e
              \<and> (\<exists>msg. e = ''Failed to update user: '' @ msg
                   \<and> (fault (db w) = Some msg
                      \<or> publish ''USER_UPDATED'' (userUpdated None) (pubsub w) = Inl msg)))
          \<and> (fault (db w) = None \<and> pubsub w = Some evs \<longrightarrow>
                fst (updateUser i username email role w) = Inr None
              \<and> pubsub (snd (updateUser i username email role w))
                  = Some (evs @ [(''USER_UPDATED'', userUpdated None)]))"
    using a b c d by blast
qed

lemma updateOrder_error_origin:
  "fst (updateOrder i prods usr tot ostatus w) = Inl e \<Longrightarrow>
     \<exists>msg. e = ''Failed to update order: '' @ msg
        \<and> (fault (db w) = Some msg \<or> publish ''ORDER_UPDATED'' (orderUpdated None) (pubsub w) = Inl msg)"
  unfolding updateOrder_def
  by (drule mutation_error_origin) (unfold Order_findByIdAndUpdate_def exec_error, blast)

lemma updateOrder_missing_all:
  "find (\<lambda>q. o_id q = i) (orders (db w)) = None \<longrightarrow>
            products (db (snd (updateOrder i prods usr tot ostatus w))) = products (db w)
          \<and> users (db (snd (updateOrder i prods usr tot ostatus w))) = users (db w)
          \<and> orders (db (snd (updateOrder i prods usr tot ostatus w))) = orders (db w)
          \<and> fst (updateOrder i prods usr tot ostatus w) \<noteq> Inr (Some r)
          \<and> (fst (updateOrder i prods usr tot ostatus w) = Inl e \<longrightarrow>
                fst (updateOrder j prods usr tot ostatus w) = Inl e
              \<and> (\<exists>msg. e = ''Failed to update order: '' @ msg
                   \<and> (fault (db w) = Some msg
                      \<or> publish ''ORDER_UPDATED'' (orderUpdated None) (pubsub w) = Inl msg)))
          \<and> (fault (db w) = None \<and> pubsub w = Some evs \<longrightarrow>
                fst (updateOrder i prods usr tot ostatus w) = Inr None
              \<and> pubsub (snd (updateOrder i prods usr tot ostatus w))
                  = Some (evs @ [(''ORDER_UPDATED'', orderUpdated None)]))"
proof (rule impI)
  assume m: "find (\<lambda>q. o_id q = i) (orders (db w)) = None"
  have st: "db (snd (updateOrder i prods usr tot ostatus w))
           = (db w)\<lparr>calls := calls (db w) @ [(OrderModel, FindByIdAndUpdate)]\<rparr>"
    by (simp add: updateOrder_def mutation_db Order_update_missing_snd [OF m])
  have a: "products (db (snd (updateOrder i prods usr tot ostatus w))) = products (db w)
          \<and> users (db (snd (updateOrder i prods usr tot ostatus w))) = users (db w)
          \<and> orders (db (snd (updateOrder i prods usr tot ostatus w))) = orders (db w)"
    by (simp add: st)
  have b: "fst (updateOrder i prods usr tot ostatus w) \<noteq> Inr (Some r)"
  proof
    assume "fst (updateOrder i prods usr tot ostatus w) = Inr (Some r)"
    then have "\<exists>x. fst (Order_findByIdAndUpdate i prods usr tot ostatus (db w)) = Inr x \<and> Some r = x"
      unfolding updateOrder_def by (rule mutation_value)
    then show False using Order_update_missing_fst [OF m] by blast
  qed
  have c: "(fst (updateOrder i prods usr tot ostatus w) = Inl e \<longrightarrow>
                fst (updateOrder j prods usr tot ostatus w) = Inl e
              \<and> (\<exists>msg. e = ''Failed to update order: '' @ msg
                   \<and> (fault (db w) = Some msg
                      \<or> publish ''ORDER_UPDATED'' (orderUpdated None) (pubsub w) = Inl msg)))"
    using updateOrder_error_any_id updateOrder_error_origin
    by blast
  have d: "(fault (db w) = None \<and> pubsub w = Some evs \<longrightarrow>
                fst (updateOrder i prods usr tot ostatus w) = Inr None
              \<and> pubsub (snd (updateOrder i prods usr tot ostatus w))
                  = Some (evs @ [(''ORDER_UPDATED'', orderUpdated None)]))"
  proof (rule impI)
    assume h: "fault (db w) = None \<and> pubsub w = Some evs"
    then have "updateOrder i prods usr tot ostatus w =
           (Inr None, \<lparr>pubsub = Some (evs @ [(''ORDER_UPDATED'', orderUpdated None)]),
                       db = (db w)\<lparr>calls := calls (db w) @ [(OrderModel, FindByIdAndUpdate)]\<rparr>\<rparr>)"
      using updateOrder_missing(2) [OF _ m] by blast
    then show "fst (updateOrder i prods usr tot ostatus w) = Inr None
              \<and> pubsub (snd (updateOrder i prods usr tot ostatus w))
                  = Some (evs @ [(''ORDER_UPDATED'', orderUpdated None)])"
      by simp
  qed
  show "products (db (snd (updateOrder i prods usr tot ostatus w))) = products (db w)
          \<and> users (db (snd (updateOrder i prods usr tot ostatus w))) = users (db w)
          \<and> orders (db (snd (updateOrder i prods usr tot ostatus w))) = orders (db w)
          \<and> fst (updateOrder i prods usr tot ostatus w) \<noteq> Inr (Some r)
          \<and> (fst (updateOrder i prods usr tot ostatus w) = Inl e \<longrightarrow>
                fst (updateOrder j prods usr tot ostatus w) = Inl e
              \<and> (\<exists>msg. e = ''Failed to update order: '' @ msg
                   \<and> (fault (db w) = Some msg
                      \<or> publish ''ORDER_UPDATED'' (orderUpdated None) (pubsub w) = Inl msg)))
          \<and> (fault (db w) = None \<and> pubsub w = Some evs \<longrightarrow>
                fst (updateOrder i prods usr tot ostatus w) = Inr None
              \<and> pubsub (snd (updateOrder i prods usr tot ostatus w))
                  = Some (evs @ [(''ORDER_UPDATED'', orderUpdated None)]))"
    using a b c d by blast
qed

text \<open>
  C4, as the claim states it, fails: with the \<open>PubSub\<close> declared, updating product
  9, which the shop does not hold, returns null and raises nothing; in the module as it
  stands the update throws the same error for the missing product 9 as for the stored
  product 1, an error that says nothing of a missing identity.
\<close>

theorem update_missing_no_error:
  "find (\<lambda>p. p_id p = 9) (products (db wired)) = None
   \<and> fst (updateProduct 9 (Val ''Pad'') Undefined Undefined Undefined wired) = Inr None
   \<and> fst (updateProduct 9 (Val ''Pad'') Undefined Undefined Undefined shipped)
       = Inl ''Failed to update product: pubsub is not defined''
   \<and> fst (updateProduct 1 (Val ''Pad'') Undefined Undefined Undefined shipped)
       = Inl ''Failed to update product: pubsub is not defined''"
  by (simp add: updateProduct_def mutation_def Product_findByIdAndUpdate_def exec_def Let_def shop_defs)

text \<open>
  C4, amended. For an identity that no document of the collection has, an update
  resolver raises no NotFound error. It leaves the three collections as they were and
  never returns an entity. Any error it raises is the error it raises for every other
  identity in the same world, and is the rethrown rejection of the store call or the
  rethrown failure of the publish. When the store answers and the \<open>PubSub\<close> is
  declared, it returns the absent value (null) and publishes the update event with a
  null payload.
\<close>

theorem update_missing_returns_null:
  "(find (\<lambda>q. p_id q = i) (products (db w)) = None \<longrightarrow>
            products (db (snd (updateProduct i name price category status w))) = products (db w)
          \<and> users (db (snd (updateProduct i name price category status w))) = users (db w)
          \<and> orders (db (snd (updateProduct i name price category status w))) = orders (db w)
          \<and> fst (updateProduct i name price category status w) \<noteq> Inr (Some p)
          \<and> (fst (updateProduct i name price category status w) = Inl e \<longrightarrow>
                fst (updateProduct j name price category status w) = Inl e
              \<and> (\<exists>msg. e = ''Failed to update product: '' @ msg
                   \<and> (fault (db w) = Some msg
                      \<or> publish ''PRODUCT_UPDATED'' (productUpdated None) (pubsub w) = Inl msg)))
          \<and> (fault (db w) = None \<and> pubsub w = Some evs \<longrightarrow>
                fst (updateProduct i name price category status w) = Inr None
              \<and> pubsub (snd (updateProduct i name price category status w))
                  = Some (evs @ [(''PRODUCT_UPDATED'', productUpdated None)])))
       \<and> (find (\<lambda>q. u_id q = i) (users (db w)) = None \<longrightarrow>
            products (db (snd (updateUser i username email role w))) = products (db w)
          \<and> users (db (snd (updateUser i username email role w))) = users (db w)
          \<and> orders (db (snd (updateUser i username email role w))) = orders (db w)
          \<and> fst (updateUser i username email role w) \<noteq> Inr (Some u)
          \<and> (fst (updateUser i username email role w) = Inl e \<longrightarrow>
                fst (updateUser j username email role w) = Inl e
              \<and> (\<exists>msg. e = ''Failed to update user: '' @ msg
                   \<and> (fault (db w) = Some msg
                      \<or> publish ''USER_UPDATED'' (userUpdated None) (pubsub w) = Inl msg)))
          \<and> (fault (db w) = None \<and> pubsub w = Some evs \<longrightarrow>
                fst (updateUser i username email role w) = Inr None
              \<and> pubsub (snd (updateUser i username email role w))
                  = Some (evs @ [(''USER_UPDATED'', userUpdated None)])))
       \<and> (find (\<lambda>q. o_id q = i) (orders (db w)) = None \<longrightarrow>
            products (db (snd (updateOrder i prods usr tot ostatus w))) = products (db w)
          \<and> users (db (snd (updateOrder i prods usr tot ostatus w))) = users (db w)
          \<and> orders (db (snd (updateOrder i prods usr tot ostatus w))) = orders (db w)
          \<and> fst (updateOrder i prods usr tot ostatus w) \<noteq> Inr (Some r)
          \<and> (fst (updateOrder i prods usr tot ostatus w) = Inl e \<longrightarrow>
                fst (updateOrder j prods usr tot ostatus w) = Inl e
              \<and> (\<exists>msg. e = ''Failed to update order: '' @ msg
                   \<and> (fault (db w) = Some msg
                      \<or> publish ''ORDER_UPDATED'' (orderUpdated None) (pubsub w) = Inl msg)))
          \<and> (fault (db w) = None \<and> pubsub w = Some evs \<longrightarrow>
                fst (updateOrder i prods usr tot ostatus w) = Inr None
              \<and> pubsub (snd (updateOrder i prods usr tot ostatus w))
                  = Some (evs @ [(''ORDER_UPDATED'', orderUpdated None)])))"
  by (intro conjI) (rule updateProduct_missing_all, rule updateUser_missing_all, rule updateOrder_missing_all)

theorem update_missing_returns_null_witness:
  "fault (db wired) = None \<and> pubsub wired = Some []
   \<and> find (\<lambda>q. p_id q = 9) (products (db wired)) = None
   \<and> fst (updateProduct 9 (Val ''Pad'') Undefined Undefined Undefined wired) = Inr None
   \<and> products (db (snd (updateProduct 9 (Val ''Pad'') Undefined Undefined Undefined wired)))
       = [keyboard, mouse, cable]
   \<and> pubsub shipped = None
   \<and> find (\<lambda>q. p_id q = 9) (products (db shipped)) = None
   \<and> products (db (snd (updateProduct 9 (Val ''Pad'') Undefined Undefined Undefined shipped)))
       = [keyboard, mouse, cable]"
proof -
  have a: "fault (db wired) = None \<and> pubsub wired = Some []"
    and b: "find (\<lambda>q. p_id q = 9) (products (db wired)) = None"
    and c: "find (\<lambda>q. p_id q = 9) (products (db shipped)) = None"
    and d: "pubsub shipped = None"
    and e: "products (db wired) = [keyboard, mouse, cable]"
    and f: "products (db shipped) = [keyboard, mouse, cable]"
    by (simp_all add: shop_defs)
  have r1: "fst (updateProduct 9 (Val ''Pad'') Undefined Undefined Undefined wired) = Inr None"
    and r2: "products (db (snd (updateProduct 9 (Val ''Pad'') Undefined Undefined Undefined wired)))
       = products (db wired)"
    using update_missing_returns_null [where i = 9 and w = wired and name = "Val ''Pad''"
        and price = Undefined and category = Undefined and status = Undefined and evs = "[]"] a b
    by blast+
  have r3: "products (db (snd (updateProduct 9 (Val ''Pad'') Undefined Undefined Undefined shipped)))
       = products (db shipped)"
    using update_missing_returns_null [where i = 9 and w = shipped and name = "Val ''Pad''"
        and price = Undefined and category = Undefined and status = Undefined] c
    by blast
  show ?thesis using a b c d r1 r2 r3 by (simp add: e f)
qed

text \<open>
  C5. For a stored entity and any update request, the document stored under that
  identity after the update keeps its identity and, for every field the request leaves
  out, the value the field had before; it is the document the resolver returns when
  the publish goes through.
\<close>

theorem update_keeps_omitted_fields:
  assumes "fault (db w) = None"
  shows "(find (\<lambda>q. p_id q = i) (products (db w)) = Some p \<longrightarrow>
           (\<exists>p'. find (\<lambda>q. p_id q = i) (products (db (snd (updateProduct i name price category status w)))) = Some p'
              \<and> (pubsub w \<noteq> None \<longrightarrow> fst (updateProduct i name price category status w) = Inr (Some p'))
              \<and> p_id p' = p_id p
              \<and> (name = Undefined \<longrightarrow> p_name p' = p_name p)
              \<and> (price = Undefined \<longrightarrow> p_price p' = p_price p)
              \<and> (category = Undefined \<longrightarrow> p_category p' = p_category p)
              \<and> (status = Undefined \<longrightarrow> p_status p' = p_status p)))
       \<and> (find (\<lambda>q. u_id q = i) (users (db w)) = Some u \<longrightarrow>
           (\<exists>u'. find (\<lambda>q. u_id q = i) (users (db (snd (updateUser i username email role w)))) = Some u'
              \<and> (pubsub w \<noteq> None \<longrightarrow> fst (updateUser i username email role w) = Inr (Some u'))
              \<and> u_id u' = u_id u
              \<and> (username = Undefined \<longrightarrow> u_username u' = u_username u)
              \<and> (email = Undefined \<longrightarrow> u_email u' = u_email u)
              \<and> (role = Undefined \<longrightarrow> u_role u' = u_role u)))
       \<and> (find (\<lambda>q. o_id q = i) (orders (db w)) = Some r \<longrightarrow>
           (\<exists>r'. find (\<lambda>q. o_id q = i) (orders (db (snd (updateOrder i prods usr tot ostatus w)))) = Some r'
              \<and> (pubsub w \<noteq> None \<longrightarrow> fst (updateOrder i prods usr tot ostatus w) = Inr (Some r'))
              \<and> o_id r' = o_id r
              \<and> (prods = Undefined \<longrightarrow> o_products r' = o_products r)
              \<and> (usr = Undefined \<longrightarrow> o_user r' = o_user r)
              \<and> (tot = Undefined \<longrightarrow> o_total r' = o_total r)
              \<and> (ostatus = Undefined \<longrightarrow> o_status r' = o_status r)))"
proof (intro conjI impI)
  assume f: "find (\<lambda>q. p_id q = i) (products (db w)) = Some p"
  show "\<exists>p'. find (\<lambda>q. p_id q = i) (products (db (snd (updateProduct i name price category status w)))) = Some p'
              \<and> (pubsub w \<noteq> None \<longrightarrow> fst (updateProduct i name price category status w) = Inr (Some p'))
              \<and> p_id p' = p_id p
              \<and> (name = Undefined \<longrightarrow> p_name p' = p_name p)
              \<and> (price = Undefined \<longrightarrow> p_price p' = p_price p)
              \<and> (category = Undefined \<longrightarrow> p_category p' = p_category p)
              \<and> (status = Undefined \<longrightarrow> p_status p' = p_status p)"
    using updateProduct_existing [OF assms f] by auto
next
  assume f: "find (\<lambda>q. u_id q = i) (users (db w)) = Some u"
  show "\<exists>u'. find (\<lambda>q. u_id q = i) (users (db (snd (updateUser i username email role w)))) = Some u'
              \<and> (pubsub w \<noteq> None \<longrightarrow> fst (updateUser i username email role w) = Inr (Some u'))
              \<and> u_id u' = u_id u
              \<and> (username = Undefined \<longrightarrow> u_username u' = u_username u)
              \<and> (email = Undefined \<longrightarrow> u_email u' = u_email u)
              \<and> (role = Undefined \<longrightarrow> u_role u' = u_role u)"
    using updateUser_existing [OF assms f] by auto
next
  assume f: "find (\<lambda>q. o_id q = i) (orders (db w)) = Some r"
  show "\<exists>r'. find (\<lambda>q. o_id q = i) (orders (db (snd (updateOrder i prods usr tot ostatus w)))) = Some r'
              \<and> (pubsub w \<noteq> None \<longrightarrow> fst (updateOrder i prods usr tot ostatus w) = Inr (Some r'))
              \<and> o_id r' = o_id r
              \<and> (prods = Undefined \<longrightarrow> o_products r' = o_products r)
              \<and> (usr = Undefined \<longrightarrow> o_user r' = o_user r)
              \<and> (tot = Undefined \<longrightarrow> o_total r' = o_total r)
              \<and> (ostatus = Undefined \<longrightarrow> o_status r' = o_status r)"
    using updateOrder_existing [OF assms f] by auto
qed

theorem update_keeps_omitted_fields_witness:
  "fault (db wired) = None \<and> find (\<lambda>q. p_id q = 1) (products (db wired)) = Some keyboard
   \<and> find (\<lambda>q. p_id q = 1)
        (products (db (snd (updateProduct 1 Undefined (Val 120) Undefined Undefined wired))))
       = Some (keyboard\<lparr>p_price := Some 120\<rparr>)
   \<and> p_name (keyboard\<lparr>p_price := Some 120\<rparr>) = p_name keyboard
   \<and> p_category (keyboard\<lparr>p_price := Some 120\<rparr>) = p_category keyboard
   \<and> p_status (keyboard\<lparr>p_price := Some 120\<rparr>) = p_status keyboard"
  using update_keeps_omitted_fields [of wired 1 keyboard Undefined "Val 120" Undefined Undefined]
  by (simp add: shop_defs updateProduct_def mutation_def Product_findByIdAndUpdate_def exec_def Let_def)

subsection \<open>The write and the notification\<close>

text \<open>
  C2. In the module as it stands \<open>addProduct\<close> stores the new product and then throws:
  \<open>pubsub\<close> is not declared, so no event is published and the resolver fails with the
  rethrown ReferenceError, the write left in place.
\<close>

theorem addProduct_throws_after_write:
  "fst (addProduct (Val ''Mouse'') (Val 99) (Val ''Electronics'') (Val ACTIVE) shipped)
     = Inl ''Failed to add product: pubsub is not defined''
   \<and> products (db (snd (addProduct (Val ''Mouse'') (Val 99) (Val ''Electronics'') (Val ACTIVE) shipped)))
     = [keyboard, mouse, cable,
        \<lparr>p_id = 10, p_name = Some ''Mouse'', p_price = Some 99,
         p_category = Some ''Electronics'', p_status = Some ACTIVE\<rparr>]
   \<and> pubsub (snd (addProduct (Val ''Mouse'') (Val 99) (Val ''Electronics'') (Val ACTIVE) shipped)) = None"
  by (simp add: addProduct_def mutation_def Product_create_def exec_def Let_def shop_defs)

end
